theory Spec2Isabelle
  imports Complex_Main "HOL-Library.AList"
begin

section \<open>JavaScript values used by the analysis pipeline\<close>

text \<open>
  The application (\<^verbatim>\<open>src/App.tsx\<close>) is TypeScript running on JavaScript numbers and
  strings. A number is modelled by \<open>jsnum\<close>: a finite value, one of the two infinities,
  or NaN. Finite values are real numbers, so arithmetic is exact: rounding, overflow to
  an infinity and the sign of zero are not represented (the section on double-precision
  arithmetic below adds the rounding, for the one test that depends on it). A cell of a
  data row is a number
  or a string (\<^verbatim>\<open>DataRow = Record<string, string | number>\<close> in \<^verbatim>\<open>src/types.ts\<close>);
  reading a key that an object does not own gives \<open>Undefined\<close>. Strings are lists of
  code units below 256.
\<close>

datatype jsnum = Fin real | PInf | NInf | NaN

datatype jsval = Num jsnum | Str string | Undefined


subsection \<open>Arithmetic on numbers\<close>

fun jneg :: "jsnum \<Rightarrow> jsnum" where
  "jneg (Fin a) = Fin (- a)"
| "jneg PInf = NInf"
| "jneg NInf = PInf"
| "jneg NaN = NaN"

fun jadd :: "jsnum \<Rightarrow> jsnum \<Rightarrow> jsnum" where
  "jadd (Fin a) (Fin b) = Fin (a + b)"
| "jadd NaN _ = NaN"
| "jadd _ NaN = NaN"
| "jadd PInf NInf = NaN"
| "jadd NInf PInf = NaN"
| "jadd PInf _ = PInf"
| "jadd NInf _ = NInf"
| "jadd _ PInf = PInf"
| "jadd _ NInf = NInf"

definition jsub :: "jsnum \<Rightarrow> jsnum \<Rightarrow> jsnum" where
  "jsub a b = jadd a (jneg b)"

text \<open>The sign of a number that is not NaN: \<open>-1\<close>, \<open>0\<close> or \<open>1\<close>.\<close>

fun jsign :: "jsnum \<Rightarrow> int" where
  "jsign (Fin a) = (if a < 0 then -1 else if a = 0 then 0 else 1)"
| "jsign PInf = 1"
| "jsign NInf = -1"
| "jsign NaN = 0"

definition signed_inf :: "int \<Rightarrow> jsnum" where
  "signed_inf s = (if s < 0 then NInf else if s = 0 then NaN else PInf)"

fun jmul :: "jsnum \<Rightarrow> jsnum \<Rightarrow> jsnum" where
  "jmul (Fin a) (Fin b) = Fin (a * b)"
| "jmul NaN _ = NaN"
| "jmul _ NaN = NaN"
| "jmul a b = signed_inf (jsign a * jsign b)"

text \<open>
  Division. A finite value divided by zero is an infinity with the sign of the dividend
  (zero is taken as positive), and \<open>0 / 0\<close> is NaN.
\<close>

fun jdiv :: "jsnum \<Rightarrow> jsnum \<Rightarrow> jsnum" where
  "jdiv (Fin a) (Fin b) = (if b = 0 then signed_inf (jsign (Fin a)) else Fin (a / b))"
| "jdiv NaN _ = NaN"
| "jdiv _ NaN = NaN"
| "jdiv (Fin a) _ = Fin 0"
| "jdiv a (Fin b) = signed_inf (jsign a * (if b < 0 then -1 else 1))"
| "jdiv PInf PInf = NaN"
| "jdiv PInf NInf = NaN"
| "jdiv NInf PInf = NaN"
| "jdiv NInf NInf = NaN"

fun jsqrt :: "jsnum \<Rightarrow> jsnum" where
  "jsqrt (Fin a) = (if a < 0 then NaN else Fin (sqrt a))"
| "jsqrt PInf = PInf"
| "jsqrt NInf = NaN"
| "jsqrt NaN = NaN"

text \<open>\<^verbatim>\<open>Math.pow(x, 2)\<close>.\<close>

definition pow2 :: "jsnum \<Rightarrow> jsnum" where
  "pow2 x = jmul x x"

text \<open>\<^verbatim>\<open>a < b\<close> on numbers: false as soon as one side is NaN.\<close>

fun jless :: "jsnum \<Rightarrow> jsnum \<Rightarrow> bool" where
  "jless (Fin a) (Fin b) = (a < b)"
| "jless NaN _ = False"
| "jless _ NaN = False"
| "jless NInf NInf = False"
| "jless NInf _ = True"
| "jless PInf _ = False"
| "jless (Fin a) PInf = True"
| "jless (Fin a) NInf = False"

text \<open>\<^verbatim>\<open>a === b\<close> on numbers: NaN is not equal to itself.\<close>

definition strict_eq :: "jsnum \<Rightarrow> jsnum \<Rightarrow> bool" where
  "strict_eq a b = (a \<noteq> NaN \<and> b \<noteq> NaN \<and> a = b)"

subsection \<open>Strings to numbers: \<^verbatim>\<open>parseFloat\<close> and \<^verbatim>\<open>Number\<close>\<close>

text \<open>
  Both conversions follow the ECMAScript grammar of \<^verbatim>\<open>StrDecimalLiteral\<close>: an optional
  sign, then \<^verbatim>\<open>Infinity\<close> or decimal digits with an optional fraction and an optional
  exponent. \<^verbatim>\<open>parseFloat\<close> skips leading white space and reads the longest prefix that
  is such a literal; \<^verbatim>\<open>Number\<close> (the conversion the global \<^verbatim>\<open>isNaN\<close> applies to its
  argument) trims both ends, maps the empty string to \<open>0\<close>, accepts the binary, octal
  and hexadecimal integer literals too, and wants the whole string to be the literal.
\<close>

definition isWhiteSpace :: "char \<Rightarrow> bool" where
  "isWhiteSpace c = (of_char c \<in> {9, 10, 11, 12, 13, 32, 160 :: nat})"

definition isDigit :: "char \<Rightarrow> bool" where
  "isDigit c = (48 \<le> (of_char c :: nat) \<and> (of_char c :: nat) \<le> 57)"

definition digitValue :: "char \<Rightarrow> nat" where
  "digitValue c = of_char c - 48"

text \<open>The value of a digit string in a base, most significant digit first.\<close>

definition digitsValue :: "nat \<Rightarrow> nat list \<Rightarrow> nat" where
  "digitsValue base ds = foldl (\<lambda>acc d. acc * base + d) 0 ds"

text \<open>
  \<open>exponentPart s\<close> reads an \<^verbatim>\<open>ExponentPart\<close> at the front of \<open>s\<close>: \<^verbatim>\<open>e\<close> or \<^verbatim>\<open>E\<close>, an
  optional sign and at least one digit. It returns the exponent and the rest, or
  \<open>None\<close> when \<open>s\<close> does not start with a complete exponent part.
\<close>

definition exponentPart :: "string \<Rightarrow> (int \<times> string) option" where
  "exponentPart s =
     (case s of
        [] \<Rightarrow> None
      | c # r \<Rightarrow>
          if c = CHR ''e'' \<or> c = CHR ''E'' then
            (let (neg, r') = (case r of
                                [] \<Rightarrow> (False, r)
                              | d # r'' \<Rightarrow> if d = CHR ''-'' then (True, r'')
                                            else if d = CHR ''+'' then (False, r'')
                                            else (False, r));
                 ds = takeWhile isDigit r'
             in if ds = [] then None
                else Some ((if neg then - 1 else 1) * int (digitsValue 10 (map digitValue ds)),
                           dropWhile isDigit r'))
          else None)"

text \<open>
  \<open>unsignedDecimal s\<close> reads the longest \<^verbatim>\<open>StrUnsignedDecimalLiteral\<close> at the front of
  \<open>s\<close> and returns its value and the rest of the string.
\<close>

definition unsignedDecimal :: "string \<Rightarrow> (jsnum \<times> string) option" where
  "unsignedDecimal s =
     (if take 8 s = ''Infinity'' then Some (PInf, drop 8 s)
      else
        let ip = takeWhile isDigit s;
            r1 = dropWhile isDigit s;
            (fp, r2) = (case r1 of
                          [] \<Rightarrow> ([], r1)
                        | c # r \<Rightarrow> if c = CHR ''.'' \<and> (ip \<noteq> [] \<or> (r \<noteq> [] \<and> isDigit (hd r)))
                                   then (takeWhile isDigit r, dropWhile isDigit r)
                                   else ([], r1))
        in if ip = [] \<and> fp = [] then None
           else
             let mant = real (digitsValue 10 (map digitValue (ip @ fp))) / 10 ^ length fp;
                 (e, r3) = (case exponentPart r2 of None \<Rightarrow> (0, r2) | Some (e, r) \<Rightarrow> (e, r))
             in Some (Fin (mant * 10 powi e), r3))"

definition signedDecimal :: "string \<Rightarrow> (jsnum \<times> string) option" where
  "signedDecimal s =
     (case s of
        [] \<Rightarrow> None
      | c # r \<Rightarrow>
          if c = CHR ''-'' then map_option (\<lambda>(v, t). (jneg v, t)) (unsignedDecimal r)
          else if c = CHR ''+'' then unsignedDecimal r
          else unsignedDecimal s)"

definition parseFloat :: "string \<Rightarrow> jsnum" where
  "parseFloat s =
     (case signedDecimal (dropWhile isWhiteSpace s) of
        None \<Rightarrow> NaN
      | Some (v, _) \<Rightarrow> v)"

definition trim :: "string \<Rightarrow> string" where
  "trim s = rev (dropWhile isWhiteSpace (rev (dropWhile isWhiteSpace s)))"

definition radixDigit :: "nat \<Rightarrow> char \<Rightarrow> nat option" where
  "radixDigit base c =
     (let n = (of_char c :: nat);
          v = (if 48 \<le> n \<and> n \<le> 57 then Some (n - 48)
               else if 97 \<le> n \<and> n \<le> 102 then Some (n - 87)
               else if 65 \<le> n \<and> n \<le> 70 then Some (n - 55)
               else None)
      in case v of None \<Rightarrow> None | Some d \<Rightarrow> if d < base then Some d else None)"

text \<open>A \<^verbatim>\<open>NonDecimalIntegerLiteral\<close>: \<^verbatim>\<open>0b\<close>, \<^verbatim>\<open>0o\<close> or \<^verbatim>\<open>0x\<close> and at least one digit.\<close>

definition nonDecimalInteger :: "string \<Rightarrow> jsnum option" where
  "nonDecimalInteger s =
     (case s of
        z # p # ds \<Rightarrow>
          (let base = (if p = CHR ''b'' \<or> p = CHR ''B'' then 2
                       else if p = CHR ''o'' \<or> p = CHR ''O'' then 8
                       else if p = CHR ''x'' \<or> p = CHR ''X'' then 16
                       else (0::nat))
           in if z = CHR ''0'' \<and> base \<noteq> 0 \<and> ds \<noteq> [] \<and> list_all (\<lambda>d. radixDigit base d \<noteq> None) ds
              then Some (Fin (real (digitsValue base (map (\<lambda>d. the (radixDigit base d)) ds))))
              else None)
      | _ \<Rightarrow> None)"

definition toNumber :: "string \<Rightarrow> jsnum" where
  "toNumber s =
     (let t = trim s
      in if t = [] then Fin 0
         else case nonDecimalInteger t of
                Some v \<Rightarrow> v
              | None \<Rightarrow> (case signedDecimal t of
                           Some (v, []) \<Rightarrow> v
                         | _ \<Rightarrow> NaN))"

text \<open>
  The global \<^verbatim>\<open>isNaN(v)\<close> converts \<open>v\<close> to a number first: \<^verbatim>\<open>undefined\<close> becomes NaN
  and a string goes through \<open>toNumber\<close>.
\<close>

fun isNaN :: "jsval \<Rightarrow> bool" where
  "isNaN (Num n) = (n = NaN)"
| "isNaN (Str s) = (toNumber s = NaN)"
| "isNaN Undefined = True"

section \<open>Data model (\<^verbatim>\<open>src/types.ts\<close>)\<close>

text \<open>
  A \<^verbatim>\<open>DataRow\<close> is an object from column names to cells, kept as an association list
  in the order its keys were created: \<open>get row key\<close> is \<^verbatim>\<open>row[key]\<close>, \<open>put\<close> is the
  assignment \<^verbatim>\<open>row[key] = v\<close> and \<open>keys\<close> is \<^verbatim>\<open>Object.keys(row)\<close>. Column names are
  taken to be ordinary own properties (not names such as \<^verbatim>\<open>__proto__\<close> that an object
  inherits).
\<close>

type_synonym DataRow = "(string \<times> jsval) list"

definition get :: "DataRow \<Rightarrow> string \<Rightarrow> jsval" where
  "get row key = (case map_of row key of None \<Rightarrow> Undefined | Some v \<Rightarrow> v)"

definition put :: "DataRow \<Rightarrow> string \<Rightarrow> jsval \<Rightarrow> DataRow" where
  "put row key v = AList.update key v row"

definition keys :: "DataRow \<Rightarrow> string list" where
  "keys row = map fst row"

record DataSet =
  data :: "DataRow list"
  headers :: "string list"
  numericHeaders :: "string list"

text \<open>\<^verbatim>\<open>typeof v === 'number' && !isNaN(v)\<close>.\<close>

fun isValidNumber :: "jsval \<Rightarrow> bool" where
  "isValidNumber (Num n) = (n \<noteq> NaN)"
| "isValidNumber _ = False"

section \<open>Type coercion: \<^verbatim>\<open>processParsedData\<close>\<close>

text \<open>
  \<open>parseCell v\<close> is \<^verbatim>\<open>parseFloat(String(v))\<close>. For a string it is \<open>parseFloat\<close>; a missing
  cell is first turned into the string \<^verbatim>\<open>undefined\<close>; a number is printed and read back,
  which returns the number itself. \<open>cellString v\<close> is \<^verbatim>\<open>String(v)\<close> on the branch that
  stores it, which a number only reaches when it is NaN.
\<close>

fun parseCell :: "jsval \<Rightarrow> jsnum" where
  "parseCell (Str s) = parseFloat s"
| "parseCell Undefined = parseFloat ''undefined''"
| "parseCell (Num n) = n"

fun cellString :: "jsval \<Rightarrow> string" where
  "cellString (Str s) = s"
| "cellString Undefined = ''undefined''"
| "cellString (Num n) = ''NaN''"

text \<open>
  The body of \<^verbatim>\<open>for (const key of headers)\<close>: it extends the new row and, on a successful
  parse, pushes the key onto \<open>numericHeaders\<close> unless it is already there.
\<close>

definition processCell :: "DataRow \<Rightarrow> string \<Rightarrow> DataRow \<times> string list \<Rightarrow> DataRow \<times> string list" where
  "processCell row key st =
     (let (newRow, nh) = st;
          value = parseCell (get row key)
      in if value \<noteq> NaN
         then (put newRow key (Num value), if key \<in> set nh then nh else nh @ [key])
         else (put newRow key (Str (cellString (get row key))), nh))"

definition processRow :: "string list \<Rightarrow> DataRow \<Rightarrow> string list \<Rightarrow> DataRow \<times> string list" where
  "processRow hs row nh = fold (processCell row) hs ([], nh)"

text \<open>\<^verbatim>\<open>data.map(row => ...)\<close>, threading the \<open>numericHeaders\<close> array the callback mutates.\<close>

fun processRows :: "string list \<Rightarrow> DataRow list \<Rightarrow> string list \<Rightarrow> DataRow list \<times> string list" where
  "processRows hs [] nh = ([], nh)"
| "processRows hs (row # rows) nh =
     (let (newRow, nh') = processRow hs row nh;
          (newRows, nh'') = processRows hs rows nh'
      in (newRow # newRows, nh''))"

text \<open>
  An empty file is rejected with an alert and \<^verbatim>\<open>onFileParsed\<close> is not called (\<open>None\<close>);
  otherwise the data set is handed to \<^verbatim>\<open>onFileParsed\<close>.
\<close>

definition processParsedData :: "DataRow list \<Rightarrow> DataSet option" where
  "processParsedData raw =
     (case raw of
        [] \<Rightarrow> None
      | first # _ \<Rightarrow>
          (let hs = keys first;
               (processedData, nh) = processRows hs raw []
           in Some \<lparr> data = processedData, headers = hs, numericHeaders = nh \<rparr>))"

section \<open>The statistics library\<close>

text \<open>
  \<^verbatim>\<open>src/App.tsx\<close> imports \<^verbatim>\<open>mean\<close>, \<^verbatim>\<open>median\<close>, \<^verbatim>\<open>standardDeviation\<close>, \<^verbatim>\<open>min\<close>, \<^verbatim>\<open>max\<close> and
  \<^verbatim>\<open>sampleCorrelation\<close> from the package \<^verbatim>\<open>simple-statistics\<close>, whose source is not part
  of the repository. The five functions below are written after the package's published
  implementation, on arrays of numbers: a result of \<open>None\<close> is the exception the
  package throws on an empty array. The package adds up with a compensated sum, which on
  finite numbers and in exact arithmetic is the plain sum; the theorems below apply the
  functions to finite numbers only. \<^verbatim>\<open>standardDeviation\<close> is the square root of
  \<^verbatim>\<open>variance\<close>, and \<^verbatim>\<open>variance\<close> divides the sum of squared deviations by the number of
  values (the package has separate \<^verbatim>\<open>sampleVariance\<close> and \<^verbatim>\<open>sampleStandardDeviation\<close>
  functions, which the application does not import). \<^verbatim>\<open>sampleCorrelation\<close> is not
  modelled: the correlation engine below takes it as a parameter.
\<close>

definition sum_ss :: "jsnum list \<Rightarrow> jsnum" where
  "sum_ss x = foldl jadd (Fin 0) x"

definition mean :: "jsnum list \<Rightarrow> jsnum option" where
  "mean x = (if x = [] then None else Some (jdiv (sum_ss x) (Fin (real (length x)))))"

text \<open>\<^verbatim>\<open>sumNthPowerDeviations(x, 2)\<close>: the sum of the squared deviations from the mean.\<close>

definition sumNthPowerDeviations :: "jsnum list \<Rightarrow> jsnum option" where
  "sumNthPowerDeviations x =
     (case mean x of
        None \<Rightarrow> None
      | Some meanValue \<Rightarrow>
          Some (foldl (\<lambda>s v. jadd s (jmul (jsub v meanValue) (jsub v meanValue))) (Fin 0) x))"

definition variance :: "jsnum list \<Rightarrow> jsnum option" where
  "variance x =
     (if x = [] then None
      else map_option (\<lambda>s. jdiv s (Fin (real (length x)))) (sumNthPowerDeviations x))"

definition standardDeviation :: "jsnum list \<Rightarrow> jsnum option" where
  "standardDeviation x =
     (if length x = 1 then Some (Fin 0) else map_option jsqrt (variance x))"

definition min_ss :: "jsnum list \<Rightarrow> jsnum option" where
  "min_ss x =
     (case x of
        [] \<Rightarrow> None
      | v # r \<Rightarrow> Some (foldl (\<lambda>value xi. if jless xi value then xi else value) v r))"

definition max_ss :: "jsnum list \<Rightarrow> jsnum option" where
  "max_ss x =
     (case x of
        [] \<Rightarrow> None
      | v # r \<Rightarrow> Some (foldl (\<lambda>value xi. if jless value xi then xi else value) v r))"

text \<open>
  \<^verbatim>\<open>median\<close> is the middle of the values in increasing order, and the mean of the two
  middle values when their number is even.
\<close>

fun insert_sorted :: "jsnum \<Rightarrow> jsnum list \<Rightarrow> jsnum list" where
  "insert_sorted v [] = [v]"
| "insert_sorted v (w # ws) = (if jless w v then w # insert_sorted v ws else v # w # ws)"

definition sorted_copy :: "jsnum list \<Rightarrow> jsnum list" where
  "sorted_copy x = foldr insert_sorted x []"

definition median :: "jsnum list \<Rightarrow> jsnum option" where
  "median x =
     (let s = sorted_copy x; n = length s
      in if n = 0 then None
         else if n mod 2 = 0 then Some (jdiv (jadd (s ! (n div 2 - 1)) (s ! (n div 2))) (Fin 2))
         else Some (s ! (n div 2)))"

section \<open>Descriptive statistics: \<^verbatim>\<open>stats\<close>\<close>

text \<open>
  \<open>stats_values\<close> is the array \<^verbatim>\<open>values\<close> of the source: the column, filtered by
  \<^verbatim>\<open>v !== null && !isNaN(v)\<close>. No cell is \<^verbatim>\<open>null\<close>, so the filter is the global
  \<^verbatim>\<open>isNaN\<close>. The cast \<^verbatim>\<open>row[header] as number\<close> is not checked when the program runs, so the
  array holds whatever cells pass the filter.
\<close>

definition stats_values :: "DataRow list \<Rightarrow> string \<Rightarrow> jsval list" where
  "stats_values rows header = filter (\<lambda>v. \<not> isNaN v) (map (\<lambda>row. get row header) rows)"

text \<open>
  The library functions are declared on arrays of numbers. \<open>numbers values\<close> is the
  array as numbers, or \<open>None\<close> when some element is not a number: what the library
  returns on such an array is not modelled, and the entry's field is then \<open>None\<close>.
\<close>

fun numbers :: "jsval list \<Rightarrow> jsnum list option" where
  "numbers [] = Some []"
| "numbers (Num n # vs) = map_option ((#) n) (numbers vs)"
| "numbers (_ # vs) = None"

record ColumnStats =
  st_count :: nat
  st_min :: "jsnum option"
  st_max :: "jsnum option"
  st_mean :: "jsnum option"
  st_median :: "jsnum option"
  st_std :: "jsnum option"

definition describe :: "jsval list \<Rightarrow> ColumnStats" where
  "describe values =
     \<lparr> st_count = length values,
       st_min = Option.bind (numbers values) min_ss,
       st_max = Option.bind (numbers values) max_ss,
       st_mean = Option.bind (numbers values) mean,
       st_median = Option.bind (numbers values) median,
       st_std = Option.bind (numbers values) standardDeviation \<rparr>"

type_synonym DescriptiveStats = "string \<rightharpoonup> ColumnStats"

definition stats :: "DataSet \<Rightarrow> DescriptiveStats" where
  "stats ds =
     fold (\<lambda>header descStats.
             let values = stats_values (data ds) header
             in if length values > 0 then descStats(header \<mapsto> describe values) else descStats)
          (numericHeaders ds) Map.empty"

section \<open>Correlation matrix: \<^verbatim>\<open>correlationMatrix\<close>\<close>

text \<open>
  The matrix is an object of objects. \<^verbatim>\<open>sampleCorrelation\<close> is a parameter \<open>sc\<close>; it
  returns \<open>None\<close> when it throws, and the exception then leaves both loops. Besides the
  matrix the model records, in order, the pairs on which \<open>sc\<close> was called.
\<close>

type_synonym CorrelationMatrix = "string \<rightharpoonup> (string \<rightharpoonup> jsnum)"

type_synonym corr_state = "CorrelationMatrix \<times> (string \<times> string) list"

text \<open>\<^verbatim>\<open>matrix[a][b]\<close>, \<open>None\<close> for \<^verbatim>\<open>undefined\<close>.\<close>

definition entry :: "CorrelationMatrix \<Rightarrow> string \<Rightarrow> string \<Rightarrow> jsnum option" where
  "entry matrix a b = (case matrix a of None \<Rightarrow> None | Some r \<Rightarrow> r b)"

text \<open>\<^verbatim>\<open>matrix[h1][h2] = v\<close>; a \<^verbatim>\<open>TypeError\<close> (\<open>None\<close>) when \<^verbatim>\<open>matrix[h1]\<close> is undefined.\<close>

definition assign :: "CorrelationMatrix \<Rightarrow> string \<Rightarrow> string \<Rightarrow> jsnum \<Rightarrow> CorrelationMatrix option" where
  "assign matrix h1 h2 v =
     (case matrix h1 of None \<Rightarrow> None | Some r \<Rightarrow> Some (matrix(h1 \<mapsto> r(h2 \<mapsto> v))))"

text \<open>\<^verbatim>\<open>forEach\<close> with a callback that may throw.\<close>

fun forEach :: "('a \<Rightarrow> 's \<Rightarrow> 's option) \<Rightarrow> 'a list \<Rightarrow> 's \<Rightarrow> 's option" where
  "forEach f [] s = Some s"
| "forEach f (x # xs) s = (case f x s of None \<Rightarrow> None | Some s' \<Rightarrow> forEach f xs s')"

definition column :: "DataRow list \<Rightarrow> string \<Rightarrow> jsval list" where
  "column rows h = map (\<lambda>row. get row h) rows"

definition corrCell ::
  "(jsval list \<Rightarrow> jsval list \<Rightarrow> jsnum option) \<Rightarrow> DataRow list \<Rightarrow> string \<Rightarrow> string \<Rightarrow>
   corr_state \<Rightarrow> corr_state option" where
  "corrCell sc rows h1 h2 st =
     (let (matrix, calls) = st
      in if h1 = h2 then map_option (\<lambda>m. (m, calls)) (assign matrix h1 h2 (Fin 1))
         else case entry matrix h2 h1 of
                Some v \<Rightarrow> map_option (\<lambda>m. (m, calls)) (assign matrix h1 h2 v)
              | None \<Rightarrow>
                  (case sc (column rows h1) (column rows h2) of
                     None \<Rightarrow> None
                   | Some c \<Rightarrow> map_option (\<lambda>m. (m, calls @ [(h1, h2)])) (assign matrix h1 h2 c)))"

definition corrRow ::
  "(jsval list \<Rightarrow> jsval list \<Rightarrow> jsnum option) \<Rightarrow> DataRow list \<Rightarrow> string list \<Rightarrow> string \<Rightarrow>
   corr_state \<Rightarrow> corr_state option" where
  "corrRow sc rows hs h1 st =
     (let (matrix, calls) = st
      in forEach (corrCell sc rows h1) hs (matrix(h1 \<mapsto> Map.empty), calls))"

definition correlationRun ::
  "(jsval list \<Rightarrow> jsval list \<Rightarrow> jsnum option) \<Rightarrow> DataSet \<Rightarrow> corr_state option" where
  "correlationRun sc ds =
     forEach (corrRow sc (data ds) (numericHeaders ds)) (numericHeaders ds) (Map.empty, [])"

definition correlationMatrix ::
  "(jsval list \<Rightarrow> jsval list \<Rightarrow> jsnum option) \<Rightarrow> DataSet \<Rightarrow> CorrelationMatrix option" where
  "correlationMatrix sc ds = map_option fst (correlationRun sc ds)"

section \<open>Regression: \<^verbatim>\<open>handleTrainModel\<close>\<close>

text \<open>
  \<^verbatim>\<open>MultivariateLinearRegression\<close> comes from the package \<^verbatim>\<open>ml-regression\<close>, whose source
  is not part of the repository; the fit is a parameter \<open>mlr\<close> of the model. A trained
  model is the object the constructor returns: the application reads its \<^verbatim>\<open>weights\<close>
  and calls its \<^verbatim>\<open>predict\<close>. \<open>mlr x y = None\<close> and \<open>predict m row = None\<close> stand for
  an exception thrown by the package.
\<close>

record TrainedModel =
  weights :: "jsnum list list"
  predict :: "jsnum list \<Rightarrow> jsnum option"

record ModelResults =
  coefficients :: "jsnum list"
  intercept :: jsnum
  rSquared :: jsnum
  rSquaredAdjusted :: jsnum
  rmse :: jsnum

text \<open>The alerts the handlers raise before they return.\<close>

datatype alert =
    SelectVariables
  | InsufficientData
  | InvalidCoefficients
  | ZeroVariance
  | Unexpected
  | InvalidInputs

text \<open>
  \<open>Trained m r ivs dv\<close> is the call \<^verbatim>\<open>onModelTrain(m, r, ivs, dv)\<close> that ends a
  successful run of the handler.
\<close>

datatype train_outcome =
    Alerted alert
  | Trained TrainedModel ModelResults "string list" string

text \<open>
  The cast \<^verbatim>\<open>row[key] as number\<close>. On the rows of \<^verbatim>\<open>cleanData\<close> the cell is a number
  (lemma \<open>cleanData_numbers\<close> below), so the other two cases do not arise there.
\<close>

fun asNumber :: "jsval \<Rightarrow> jsnum" where
  "asNumber (Num n) = n"
| "asNumber (Str s) = NaN"
| "asNumber Undefined = NaN"

text \<open>\<^verbatim>\<open>w[0]\<close> and the test \<^verbatim>\<open>isNaN(w[0])\<close> on a row of the weights.\<close>

fun first :: "jsnum list \<Rightarrow> jsval" where
  "first [] = Undefined"
| "first (a # _) = Num a"

definition cleanData :: "DataSet \<Rightarrow> string list \<Rightarrow> DataRow list" where
  "cleanData ds allVars =
     filter (\<lambda>row. list_all (\<lambda>v. isValidNumber (get row v)) allVars) (data ds)"

definition ssTotal :: "jsnum list \<Rightarrow> jsnum \<Rightarrow> jsnum" where
  "ssTotal y yMean = foldl (\<lambda>acc val. jadd acc (pow2 (jsub val yMean))) (Fin 0) y"

definition ssResidual :: "jsnum list \<Rightarrow> jsnum list \<Rightarrow> jsnum" where
  "ssResidual y predictions =
     foldl (\<lambda>acc (val, p). jadd acc (pow2 (jsub val p))) (Fin 0) (zip y predictions)"

text \<open>The arrays \<^verbatim>\<open>y\<close> and \<^verbatim>\<open>x\<close> handed to the regression.\<close>

definition yVector :: "DataRow list \<Rightarrow> string \<Rightarrow> jsnum list" where
  "yVector rows dependentVar = map (\<lambda>row. asNumber (get row dependentVar)) rows"

definition xMatrix :: "DataRow list \<Rightarrow> string list \<Rightarrow> jsnum list list" where
  "xMatrix rows independentVars =
     map (\<lambda>row. map (\<lambda>key. asNumber (get row key)) independentVars) rows"

text \<open>
  The part of the handler inside \<^verbatim>\<open>try\<close>: every exception ends in the alert of the
  \<^verbatim>\<open>catch\<close> block. The count \<^verbatim>\<open>n = cleanData.length\<close> is the length of \<open>y\<close>.
\<close>

definition fitAndEvaluate ::
  "(jsnum list list \<Rightarrow> jsnum list \<Rightarrow> TrainedModel option) \<Rightarrow> jsnum list list \<Rightarrow> jsnum list \<Rightarrow>
   string list \<Rightarrow> string \<Rightarrow> train_outcome" where
  "fitAndEvaluate mlr x y independentVars dependentVar =
     (case mlr x y of
        None \<Rightarrow> Alerted Unexpected
      | Some m \<Rightarrow>
          if list_ex (\<lambda>w. isNaN (first w)) (weights m) then Alerted InvalidCoefficients
          else
            (case those (map (predict m) x) of
               None \<Rightarrow> Alerted Unexpected
             | Some predictions \<Rightarrow>
                 (case mean y of
                    None \<Rightarrow> Alerted Unexpected
                  | Some yMean \<Rightarrow>
                      if strict_eq (ssTotal y yMean) (Fin 0) then Alerted ZeroVariance
                      else
                        let ssr = ssResidual y predictions;
                            n = Fin (real (length y));
                            k = Fin (real (length independentVars));
                            r2 = jsub (Fin 1) (jdiv ssr (ssTotal y yMean));
                            r2adj = jsub (Fin 1)
                                      (jdiv (jmul (jsub (Fin 1) r2) (jsub n (Fin 1)))
                                            (jsub (jsub n k) (Fin 1)))
                        in case weights m of
                             [] \<Rightarrow> Alerted Unexpected
                           | w0 # ws \<Rightarrow>
                               Trained m
                                 \<lparr> coefficients = concat ws,
                                   intercept = asNumber (first w0),
                                   rSquared = r2,
                                   rSquaredAdjusted = r2adj,
                                   rmse = jsqrt (jdiv ssr n) \<rparr>
                                 independentVars dependentVar)))"

definition handleTrainModel ::
  "(jsnum list list \<Rightarrow> jsnum list \<Rightarrow> TrainedModel option) \<Rightarrow> DataSet \<Rightarrow> string \<Rightarrow>
   string list \<Rightarrow> train_outcome" where
  "handleTrainModel mlr ds dependentVar independentVars =
     (if dependentVar = [] \<or> length independentVars = 0 then Alerted SelectVariables
      else
        let rows = cleanData ds (dependentVar # independentVars)
        in if length rows < length independentVars + 2 then Alerted InsufficientData
           else fitAndEvaluate mlr (xMatrix rows independentVars) (yVector rows dependentVar)
                  independentVars dependentVar)"

section \<open>Application state: \<^verbatim>\<open>App\<close>\<close>

record CurrentModel =
  cm_model :: TrainedModel
  cm_results :: ModelResults
  cm_independentVars :: "string list"
  cm_dependentVar :: string

record AppState =
  isLoading :: bool
  dataSet :: "DataSet option"
  model :: "CurrentModel option"
  variableSuggestions :: "(string \<times> string list) option"

definition handleFileParsed :: "DataSet \<Rightarrow> AppState \<Rightarrow> AppState" where
  "handleFileParsed newDataSet st =
     st \<lparr> dataSet := Some newDataSet, model := None, variableSuggestions := None \<rparr>"

definition handleModelTrain ::
  "TrainedModel \<Rightarrow> ModelResults \<Rightarrow> string list \<Rightarrow> string \<Rightarrow> AppState \<Rightarrow> AppState" where
  "handleModelTrain m results independentVars dependentVar st =
     st \<lparr> model := Some \<lparr> cm_model = m, cm_results = results,
                          cm_independentVars = independentVars,
                          cm_dependentVar = dependentVar \<rparr> \<rparr>"

text \<open>
  A click on the train button with the selection \<open>dependentVar\<close>, \<open>independentVars\<close>:
  \<^verbatim>\<open>handleTrainModel\<close> runs on the current data set with \<^verbatim>\<open>onModelTrain = handleModelTrain\<close>.
  The result is the alert shown, if any, and the next state. The trainer is only
  rendered when a data set is loaded.
\<close>

definition trainClick ::
  "(jsnum list list \<Rightarrow> jsnum list \<Rightarrow> TrainedModel option) \<Rightarrow> string \<Rightarrow> string list \<Rightarrow>
   AppState \<Rightarrow> alert option \<times> AppState" where
  "trainClick mlr dependentVar independentVars st =
     (case dataSet st of
        None \<Rightarrow> (None, st)
      | Some ds \<Rightarrow>
          (case handleTrainModel mlr ds dependentVar independentVars of
             Alerted a \<Rightarrow> (Some a, st)
           | Trained m r ivs dv \<Rightarrow> (None, handleModelTrain m r ivs dv st)))"

section \<open>Prediction form: \<^verbatim>\<open>Predictor\<close>\<close>







section \<open>Double-precision arithmetic\<close>

text \<open>
  The test \<^verbatim>\<open>ssTotal === 0\<close> of the handler compares the result of rounded operations
  with zero, so whether it fires is a matter of rounding. This section writes the
  \<^verbatim>\<open>try\<close> block of \<^verbatim>\<open>handleTrainModel\<close> and the library's \<^verbatim>\<open>mean\<close> a second time, the same
  lines with every arithmetic operation rounded as JavaScript rounds it: to the nearest
  binary64 value, ties to the even significand. \<open>fl x\<close> is that rounding of a real
  \<open>x\<close>: with \<open>2^k \<le> |x| < 2^(k+1)\<close> the binary64 values around \<open>x\<close> are the multiples
  of \<open>2^(k-52)\<close>. The exponent is not bounded: overflow and subnormal numbers are not
  represented, and no value used below is near either range.
\<close>

definition roundEven :: "real \<Rightarrow> int" where
  "roundEven r =
     (let f = \<lfloor>r\<rfloor>
      in if r - of_int f < 1 / 2 then f
         else if 1 / 2 < r - of_int f then f + 1
         else if even f then f else f + 1)"

definition fl :: "real \<Rightarrow> real" where
  "fl x =
     (if x = 0 then 0
      else let e = \<lfloor>log 2 \<bar>x\<bar>\<rfloor> - 52
           in of_int (roundEven (x / 2 powi e)) * 2 powi e)"

fun rnd :: "jsnum \<Rightarrow> jsnum" where
  "rnd (Fin x) = Fin (fl x)"
| "rnd PInf = PInf"
| "rnd NInf = NInf"
| "rnd NaN = NaN"

text \<open>
  The rounded operations. \<^verbatim>\<open>Math.pow(x, 2)\<close> is taken as the rounded product \<open>x * x\<close>;
  \<open>jabs\<close> is \<^verbatim>\<open>Math.abs\<close> and \<open>jgeq\<close> is \<^verbatim>\<open>>=\<close>.
\<close>

definition dadd :: "jsnum \<Rightarrow> jsnum \<Rightarrow> jsnum" where
  "dadd a b = rnd (jadd a b)"

definition dsub :: "jsnum \<Rightarrow> jsnum \<Rightarrow> jsnum" where
  "dsub a b = rnd (jsub a b)"

definition dmul :: "jsnum \<Rightarrow> jsnum \<Rightarrow> jsnum" where
  "dmul a b = rnd (jmul a b)"

definition ddiv :: "jsnum \<Rightarrow> jsnum \<Rightarrow> jsnum" where
  "ddiv a b = rnd (jdiv a b)"

definition dsqrt :: "jsnum \<Rightarrow> jsnum" where
  "dsqrt a = rnd (jsqrt a)"

definition dpow2 :: "jsnum \<Rightarrow> jsnum" where
  "dpow2 x = rnd (pow2 x)"

fun jabs :: "jsnum \<Rightarrow> jsnum" where
  "jabs (Fin a) = Fin \<bar>a\<bar>"
| "jabs PInf = PInf"
| "jabs NInf = PInf"
| "jabs NaN = NaN"

definition jgeq :: "jsnum \<Rightarrow> jsnum \<Rightarrow> bool" where
  "jgeq a b = (strict_eq a b \<or> jless b a)"

text \<open>
  \<^verbatim>\<open>sum\<close> of \<^verbatim>\<open>simple-statistics\<close> is a compensated sum: it starts from \<^verbatim>\<open>x[0]\<close> with a
  correction of \<^verbatim>\<open>0\<close>; for each further element it sets \<^verbatim>\<open>transition = sum + x[i]\<close>,
  adds \<^verbatim>\<open>sum - transition + x[i]\<close> to the correction when \<^verbatim>\<open>Math.abs(sum) >= Math.abs(x[i])\<close>
  and \<^verbatim>\<open>x[i] - transition + sum\<close> otherwise, and goes on with \<^verbatim>\<open>sum = transition\<close>; it returns
  \<^verbatim>\<open>sum + correction\<close>. \<^verbatim>\<open>mean\<close> divides it by the length.
\<close>

fun compensated :: "jsnum \<Rightarrow> jsnum \<Rightarrow> jsnum list \<Rightarrow> jsnum" where
  "compensated s correction [] = dadd s correction"
| "compensated s correction (xi # xs) =
     (let transition = dadd s xi;
          correction' = (if jgeq (jabs s) (jabs xi)
                         then dadd correction (dadd (dsub s transition) xi)
                         else dadd correction (dadd (dsub xi transition) s))
      in compensated transition correction' xs)"

definition sum_double :: "jsnum list \<Rightarrow> jsnum" where
  "sum_double x = (case x of [] \<Rightarrow> Fin 0 | x0 # r \<Rightarrow> compensated x0 (Fin 0) r)"

definition mean_double :: "jsnum list \<Rightarrow> jsnum option" where
  "mean_double x =
     (if x = [] then None else Some (ddiv (sum_double x) (Fin (real (length x)))))"

text \<open>Lines 346 to 375 of \<^verbatim>\<open>src/App.tsx\<close>, as in \<open>fitAndEvaluate\<close>, with rounded operations.\<close>

definition ssTotal_double :: "jsnum list \<Rightarrow> jsnum \<Rightarrow> jsnum" where
  "ssTotal_double y yMean = foldl (\<lambda>acc val. dadd acc (dpow2 (dsub val yMean))) (Fin 0) y"

definition ssResidual_double :: "jsnum list \<Rightarrow> jsnum list \<Rightarrow> jsnum" where
  "ssResidual_double y predictions =
     foldl (\<lambda>acc (val, p). dadd acc (dpow2 (dsub val p))) (Fin 0) (zip y predictions)"

definition fitAndEvaluate_double ::
  "(jsnum list list \<Rightarrow> jsnum list \<Rightarrow> TrainedModel option) \<Rightarrow> jsnum list list \<Rightarrow> jsnum list \<Rightarrow>
   string list \<Rightarrow> string \<Rightarrow> train_outcome" where
  "fitAndEvaluate_double mlr x y independentVars dependentVar =
     (case mlr x y of
        None \<Rightarrow> Alerted Unexpected
      | Some m \<Rightarrow>
          if list_ex (\<lambda>w. isNaN (first w)) (weights m) then Alerted InvalidCoefficients
          else
            (case those (map (predict m) x) of
               None \<Rightarrow> Alerted Unexpected
             | Some predictions \<Rightarrow>
                 (case mean_double y of
                    None \<Rightarrow> Alerted Unexpected
                  | Some yMean \<Rightarrow>
                      if strict_eq (ssTotal_double y yMean) (Fin 0) then Alerted ZeroVariance
                      else
                        let ssr = ssResidual_double y predictions;
                            n = Fin (real (length y));
                            k = Fin (real (length independentVars));
                            r2 = dsub (Fin 1) (ddiv ssr (ssTotal_double y yMean));
                            r2adj = dsub (Fin 1)
                                      (ddiv (dmul (dsub (Fin 1) r2) (dsub n (Fin 1)))
                                            (dsub (dsub n k) (Fin 1)))
                        in case weights m of
                             [] \<Rightarrow> Alerted Unexpected
                           | w0 # ws \<Rightarrow>
                               Trained m
                                 \<lparr> coefficients = concat ws,
                                   intercept = asNumber (first w0),
                                   rSquared = r2,
                                   rSquaredAdjusted = r2adj,
                                   rmse = dsqrt (ddiv ssr n) \<rparr>
                                 independentVars dependentVar)))"

definition handleTrainModel_double ::
  "(jsnum list list \<Rightarrow> jsnum list \<Rightarrow> TrainedModel option) \<Rightarrow> DataSet \<Rightarrow> string \<Rightarrow>
   string list \<Rightarrow> train_outcome" where
  "handleTrainModel_double mlr ds dependentVar independentVars =
     (if dependentVar = [] \<or> length independentVars = 0 then Alerted SelectVariables
      else
        let rows = cleanData ds (dependentVar # independentVars)
        in if length rows < length independentVars + 2 then Alerted InsufficientData
           else fitAndEvaluate_double mlr (xMatrix rows independentVars)
                  (yVector rows dependentVar) independentVars dependentVar)"

text \<open>\<open>isTrained\<close>: the handler ended by calling \<^verbatim>\<open>onModelTrain\<close>.\<close>

fun isTrained :: "train_outcome \<Rightarrow> bool" where
  "isTrained (Trained m r ivs dv) = True"
| "isTrained (Alerted a) = False"

section \<open>Notions used to state the properties\<close>

subsection \<open>Type coercion\<close>

text \<open>
  \<open>parses row key\<close>: the cell of \<open>row\<close> under \<open>key\<close> parses as a number. \<open>coerced row key\<close>
  is the cell the new row gets. \<open>numericAfter hs rows\<close> is the array \<open>numericHeaders\<close>
  once \<^verbatim>\<open>data.map\<close> has gone through \<open>rows\<close>.
\<close>

definition parses :: "DataRow \<Rightarrow> string \<Rightarrow> bool" where
  "parses row key = (parseCell (get row key) \<noteq> NaN)"

definition coerced :: "DataRow \<Rightarrow> string \<Rightarrow> jsval" where
  "coerced row key =
     (if parses row key then Num (parseCell (get row key)) else Str (cellString (get row key)))"

definition numericAfter :: "string list \<Rightarrow> DataRow list \<Rightarrow> string list" where
  "numericAfter hs rows = snd (processRows hs rows [])"

subsection \<open>Standard deviations\<close>

text \<open>
  The two standard deviations of a list of reals: \<open>populationStd\<close> divides the sum of
  squared deviations from the mean by the number \<open>n\<close> of values, \<open>sampleStd\<close> divides
  it by \<open>n - 1\<close>.
\<close>

definition populationStd :: "real list \<Rightarrow> real" where
  "populationStd rs =
     sqrt ((\<Sum>r\<leftarrow>rs. (r - sum_list rs / real (length rs))\<^sup>2) / real (length rs))"

definition sampleStd :: "real list \<Rightarrow> real" where
  "sampleStd rs =
     sqrt ((\<Sum>r\<leftarrow>rs. (r - sum_list rs / real (length rs))\<^sup>2) / (real (length rs) - 1))"

subsection \<open>Correlation matrix\<close>




subsection \<open>Prediction form\<close>





subsection \<open>Example data\<close>

text \<open>
  Small data sets and library results for the concrete instances below. \<open>fitWith ws p\<close>
  is a regression whose fit returns the weights \<open>ws\<close> and whose \<^verbatim>\<open>predict\<close> returns
  \<open>p\<close>; \<open>exampleCorrelation\<close> is a correlation function that returns \<open>1/2\<close>;
  \<open>echoModel\<close> is a model whose \<^verbatim>\<open>predict\<close> returns the first number it is given.
\<close>

definition exampleCsv :: "DataRow list" where
  "exampleCsv = [[(''a'', Str ''1''), (''b'', Str ''x'')], [(''a'', Str ''''), (''b'', Str ''2'')]]"

definition blankCsv :: "DataRow list" where
  "blankCsv = [[(''a'', Str ''1'')], [(''a'', Str '''')]]"

definition exampleColumn :: DataSet where
  "exampleColumn =
     \<lparr> data = [[(''a'', Num (Fin 0))], [(''a'', Num (Fin 2))]],
       headers = [''a''], numericHeaders = [''a''] \<rparr>"

definition exampleLine :: DataSet where
  "exampleLine =
     \<lparr> data = [[(''x'', Num (Fin 0)), (''y'', Num (Fin 0))],
               [(''x'', Num (Fin 1)), (''y'', Num (Fin 1))],
               [(''x'', Num (Fin 2)), (''y'', Num (Fin 2))]],
       headers = [''x'', ''y''], numericHeaders = [''x'', ''y''] \<rparr>"

text \<open>
  \<open>tenth\<close> is the binary64 value of \<^verbatim>\<open>0.1\<close>, and \<open>exampleTenths\<close> a data set whose
  column \<open>y\<close> holds it in every row.
\<close>

definition tenth :: real where
  "tenth = 3602879701896397 / 36028797018963968"

definition exampleTenths :: DataSet where
  "exampleTenths =
     \<lparr> data = [[(''x'', Num (Fin 0)), (''y'', Num (Fin tenth))],
               [(''x'', Num (Fin 1)), (''y'', Num (Fin tenth))],
               [(''x'', Num (Fin 2)), (''y'', Num (Fin tenth))]],
       headers = [''x'', ''y''], numericHeaders = [''x'', ''y''] \<rparr>"

definition exampleTwoRows :: DataSet where
  "exampleTwoRows =
     \<lparr> data = [[(''x'', Num (Fin 0)), (''y'', Num (Fin 1))],
               [(''x'', Num (Fin 1)), (''y'', Num (Fin 1))]],
       headers = [''x'', ''y''], numericHeaders = [''x'', ''y''] \<rparr>"

definition exampleThreeRows :: DataSet where
  "exampleThreeRows =
     \<lparr> data = [[(''x1'', Num (Fin 0)), (''x2'', Num (Fin 1)), (''y'', Num (Fin 3))],
               [(''x1'', Num (Fin 1)), (''x2'', Num (Fin 0)), (''y'', Num (Fin 5))],
               [(''x1'', Num (Fin 1)), (''x2'', Num (Fin 1)), (''y'', Num (Fin 4))]],
       headers = [''x1'', ''x2'', ''y''], numericHeaders = [''x1'', ''x2'', ''y''] \<rparr>"

definition fitWith ::
  "jsnum list list \<Rightarrow> jsnum \<Rightarrow> jsnum list list \<Rightarrow> jsnum list \<Rightarrow> TrainedModel option" where
  "fitWith ws p x y = Some \<lparr> weights = ws, predict = (\<lambda>row. Some p) \<rparr>"


definition exampleState :: AppState where
  "exampleState =
     \<lparr> isLoading = False, dataSet = Some exampleTwoRows,
       model = Some \<lparr> cm_model = \<lparr> weights = [[Fin 1], [Fin 0]], predict = (\<lambda>row. Some (Fin 1)) \<rparr>,
                      cm_results = \<lparr> coefficients = [Fin 0], intercept = Fin 1, rSquared = Fin 1,
                                     rSquaredAdjusted = Fin 1, rmse = Fin 0 \<rparr>,
                      cm_independentVars = [''x''], cm_dependentVar = ''y'' \<rparr>,
       variableSuggestions = None \<rparr>"


section \<open>Evaluation of the conversions\<close>

lemma parseFloat_1: "parseFloat ''1'' = Fin 1"
  by (simp add: parseFloat_def signedDecimal_def unsignedDecimal_def isWhiteSpace_def
      isDigit_def digitValue_def digitsValue_def exponentPart_def)

lemma parseFloat_2: "parseFloat ''2'' = Fin 2"
  by (simp add: parseFloat_def signedDecimal_def unsignedDecimal_def isWhiteSpace_def
      isDigit_def digitValue_def digitsValue_def exponentPart_def)

lemma parseFloat_x: "parseFloat ''x'' = NaN"
  by (simp add: parseFloat_def signedDecimal_def unsignedDecimal_def isWhiteSpace_def
      isDigit_def)

lemma parseFloat_empty: "parseFloat '''' = NaN"
  by (simp add: parseFloat_def signedDecimal_def)

lemma toNumber_empty: "toNumber '''' = Fin 0"
  by (simp add: toNumber_def trim_def)

lemma get_put: "get (put row k v) k' = (if k' = k then v else get row k')"
  by (simp add: get_def put_def update_conv')

section \<open>Type coercion\<close>

lemma processCell_snd:
  "snd (processCell row key (nr, nh)) = (if parses row key \<and> key \<notin> set nh then nh @ [key] else nh)"
  by (simp add: processCell_def parses_def Let_def)

lemma processCell_fst:
  "fst (processCell row key (nr, nh)) = put nr key (coerced row key)"
  by (simp add: processCell_def parses_def coerced_def Let_def)

lemma fold_processCell_set:
  "set (snd (fold (processCell row) hs (nr, nh))) = set nh \<union> {k \<in> set hs. parses row k}"
proof (induction hs arbitrary: nr nh)
  case Nil
  then show ?case by simp
next
  case (Cons k hs)
  obtain nr' nh' where st: "processCell row k (nr, nh) = (nr', nh')" by (cases "processCell row k (nr, nh)")
  have nh': "nh' = (if parses row k \<and> k \<notin> set nh then nh @ [k] else nh)"
    using processCell_snd [of row k nr nh] st by simp
  show ?case using Cons.IH [of nr' nh'] st nh' by auto
qed

lemma fold_processCell_distinct:
  "distinct nh \<Longrightarrow> distinct (snd (fold (processCell row) hs (nr, nh)))"
proof (induction hs arbitrary: nr nh)
  case Nil
  then show ?case by simp
next
  case (Cons k hs)
  obtain nr' nh' where st: "processCell row k (nr, nh) = (nr', nh')" by (cases "processCell row k (nr, nh)")
  have nh': "nh' = (if parses row k \<and> k \<notin> set nh then nh @ [k] else nh)"
    using processCell_snd [of row k nr nh] st by simp
  have "distinct nh'" using nh' Cons.prems by auto
  then show ?case using Cons.IH [of nh' nr'] st by simp
qed

lemma fold_processCell_prefix:
  "\<exists>added. snd (fold (processCell row) hs (nr, nh)) = nh @ added"
proof (induction hs arbitrary: nr nh)
  case Nil
  then show ?case by simp
next
  case (Cons k hs)
  obtain nr' nh' where st: "processCell row k (nr, nh) = (nr', nh')" by (cases "processCell row k (nr, nh)")
  have nh': "nh' = (if parses row k \<and> k \<notin> set nh then nh @ [k] else nh)"
    using processCell_snd [of row k nr nh] st by simp
  obtain added where "snd (fold (processCell row) hs (nr', nh')) = nh' @ added"
    using Cons.IH [of nr' nh'] by blast
  then show ?case using st nh' by (cases "parses row k \<and> k \<notin> set nh") auto
qed

lemma fold_processCell_get:
  "get (fst (fold (processCell row) hs (nr, nh))) key =
     (if key \<in> set hs then coerced row key else get nr key)"
proof (induction hs arbitrary: nr nh)
  case Nil
  then show ?case by simp
next
  case (Cons k hs)
  obtain nr' nh' where st: "processCell row k (nr, nh) = (nr', nh')" by (cases "processCell row k (nr, nh)")
  have nr': "nr' = put nr k (coerced row k)"
    using processCell_fst [of row k nr nh] st by simp
  show ?case using Cons.IH [of nr' nh'] st nr' by (simp add: get_put)
qed

lemma fold_processCell_fst_indep:
  "fst (fold (processCell row) hs (nr, nh)) = fst (fold (processCell row) hs (nr, nh2))"
proof (induction hs arbitrary: nr nh nh2)
  case Nil
  then show ?case by simp
next
  case (Cons k hs)
  obtain nr' nh' where st: "processCell row k (nr, nh) = (nr', nh')" by (cases "processCell row k (nr, nh)")
  obtain nr2 nh2' where st2: "processCell row k (nr, nh2) = (nr2, nh2')" by (cases "processCell row k (nr, nh2)")
  have "nr' = nr2" using processCell_fst [of row k nr nh] processCell_fst [of row k nr nh2] st st2 by simp
  then show ?case using Cons.IH [of nr' nh' nh2'] st st2 by simp
qed

lemma processRows_fst:
  "fst (processRows hs rows nh) = map (\<lambda>row. fst (processRow hs row [])) rows"
proof (induction rows arbitrary: nh)
  case Nil
  then show ?case by simp
next
  case (Cons row rows)
  have "fst (processRow hs row nh) = fst (processRow hs row [])"
    unfolding processRow_def by (rule fold_processCell_fst_indep)
  then show ?case using Cons.IH by (simp add: split_def Let_def)
qed

lemma processRows_snd_append:
  "snd (processRows hs (rows1 @ rows2) nh) = snd (processRows hs rows2 (snd (processRows hs rows1 nh)))"
  by (induction rows1 arbitrary: nh) (simp_all add: split_def Let_def)

lemma processRows_set:
  "set (snd (processRows hs rows nh)) = set nh \<union> {k \<in> set hs. \<exists>row \<in> set rows. parses row k}"
proof (induction rows arbitrary: nh)
  case Nil
  then show ?case by simp
next
  case (Cons row rows)
  have "set (snd (processRow hs row nh)) = set nh \<union> {k \<in> set hs. parses row k}"
    unfolding processRow_def by (rule fold_processCell_set)
  then show ?case using Cons.IH [of "snd (processRow hs row nh)"] by (auto simp: split_def Let_def)
qed

lemma processRows_distinct:
  "distinct nh \<Longrightarrow> distinct (snd (processRows hs rows nh))"
proof (induction rows arbitrary: nh)
  case Nil
  then show ?case by simp
next
  case (Cons row rows)
  have "distinct (snd (processRow hs row nh))"
    unfolding processRow_def using Cons.prems by (rule fold_processCell_distinct)
  then show ?case using Cons.IH [of "snd (processRow hs row nh)"] by (simp add: split_def Let_def)
qed

lemma processRows_prefix:
  "\<exists>added. snd (processRows hs rows nh) = nh @ added"
proof (induction rows arbitrary: nh)
  case Nil
  then show ?case by simp
next
  case (Cons row rows)
  obtain a where a: "snd (processRow hs row nh) = nh @ a"
    unfolding processRow_def using fold_processCell_prefix by blast
  obtain b where "snd (processRows hs rows (snd (processRow hs row nh))) = snd (processRow hs row nh) @ b"
    using Cons.IH by blast
  then show ?case using a by (simp add: split_def Let_def)
qed

lemma processRow_get:
  "key \<in> set hs \<Longrightarrow> get (fst (processRow hs row nh)) key = coerced row key"
  unfolding processRow_def by (simp add: fold_processCell_get)

lemma coerced_valid: "isValidNumber (coerced row key) = parses row key"
  by (simp add: coerced_def parses_def)

lemma exampleCsv_processed:
  "processParsedData exampleCsv =
     Some \<lparr> data = [[(''a'', Num (Fin 1)), (''b'', Str ''x'')], [(''a'', Str ''''), (''b'', Num (Fin 2))]],
            headers = [''a'', ''b''], numericHeaders = [''a'', ''b''] \<rparr>"
  by (simp add: processParsedData_def exampleCsv_def keys_def processRow_def processCell_def
      get_def put_def parseFloat_1 parseFloat_2 parseFloat_x parseFloat_empty Let_def)

text \<open>
  Claim C8. For a non-empty input, the data set built by \<^verbatim>\<open>processParsedData\<close> has
  \<open>numericHeaders\<close> within \<open>headers\<close>; every numeric header has a row of the
  processed data whose cell is a valid number; no header is listed twice; and a column
  is added to \<open>numericHeaders\<close> precisely the first time a row's value for it parses as a
  number: while the row \<open>row\<close> that follows \<open>rows1\<close> is processed the array grows at
  its end by \<open>added\<close>, and \<open>h\<close> is among \<open>added\<close> exactly when \<open>h\<close> is a header,
  the cell of \<open>row\<close> parses and no cell of an earlier row did.
\<close>

theorem numericHeaders_first_parse:
  assumes "processParsedData raw = Some ds"
  shows "set (numericHeaders ds) \<subseteq> set (headers ds) \<and>
         (\<forall>h \<in> set (numericHeaders ds). \<exists>row \<in> set (data ds). isValidNumber (get row h)) \<and>
         distinct (numericHeaders ds) \<and>
         numericHeaders ds = numericAfter (headers ds) raw \<and>
         (\<forall>rows1 row rows2 h. raw = rows1 @ row # rows2 \<longrightarrow>
            (\<exists>added. numericAfter (headers ds) (rows1 @ [row]) = numericAfter (headers ds) rows1 @ added \<and>
               (h \<in> set added) =
               (h \<in> set (headers ds) \<and> parses row h \<and> (\<forall>r \<in> set rows1. \<not> parses r h))))"
proof -
  from assms obtain first rest where raw: "raw = first # rest"
    by (cases raw) (auto simp: processParsedData_def)
  let ?hs = "keys first"
  have ds: "ds = \<lparr> data = fst (processRows ?hs raw []), headers = ?hs,
                   numericHeaders = snd (processRows ?hs raw []) \<rparr>"
    using assms raw by (simp add: processParsedData_def split_def Let_def)
  have hs: "headers ds = ?hs" and nh: "numericHeaders ds = numericAfter ?hs raw"
    and dt: "data ds = map (\<lambda>row. fst (processRow ?hs row [])) raw"
    using ds by (simp_all add: numericAfter_def processRows_fst)
  have nhset: "set (numericHeaders ds) = {k \<in> set ?hs. \<exists>row \<in> set raw. parses row k}"
    using nh by (simp add: numericAfter_def processRows_set)
  have 1: "set (numericHeaders ds) \<subseteq> set (headers ds)" using nhset hs by auto
  have 2: "\<forall>h \<in> set (numericHeaders ds). \<exists>row \<in> set (data ds). isValidNumber (get row h)"
  proof
    fix h assume "h \<in> set (numericHeaders ds)"
    then obtain row where h: "h \<in> set ?hs" and row: "row \<in> set raw" "parses row h"
      using nhset by auto
    have "fst (processRow ?hs row []) \<in> set (data ds)" using dt row(1) by simp
    moreover have "isValidNumber (get (fst (processRow ?hs row [])) h)"
      using processRow_get [OF h] row(2) by (simp add: coerced_valid)
    ultimately show "\<exists>row \<in> set (data ds). isValidNumber (get row h)" by blast
  qed
  have 3: "distinct (numericHeaders ds)"
    using nh by (simp add: numericAfter_def processRows_distinct)
  have 5: "\<forall>rows1 row rows2 h. raw = rows1 @ row # rows2 \<longrightarrow>
            (\<exists>added. numericAfter (headers ds) (rows1 @ [row]) = numericAfter (headers ds) rows1 @ added \<and>
               (h \<in> set added) =
               (h \<in> set (headers ds) \<and> parses row h \<and> (\<forall>r \<in> set rows1. \<not> parses r h)))"
  proof (intro allI impI)
    fix rows1 row rows2 h
    let ?before = "numericAfter ?hs rows1"
    have after: "numericAfter ?hs (rows1 @ [row]) = snd (processRow ?hs row ?before)"
      by (simp add: numericAfter_def processRows_snd_append split_def Let_def)
    obtain added where added: "snd (processRow ?hs row ?before) = ?before @ added"
      unfolding processRow_def using fold_processCell_prefix by blast
    have d: "distinct (?before @ added)"
      using processRows_distinct [of "[]" ?hs "rows1 @ [row]"] after added
      by (simp add: numericAfter_def)
    have "set (?before @ added) = set ?before \<union> {k \<in> set ?hs. parses row k}"
      using added fold_processCell_set [of row ?hs "[]" ?before] by (simp add: processRow_def)
    then have "set added = {k \<in> set ?hs. parses row k} - set ?before"
      using d by auto
    moreover have "set ?before = {k \<in> set ?hs. \<exists>r \<in> set rows1. parses r k}"
      by (simp add: numericAfter_def processRows_set)
    ultimately have "(h \<in> set added) = (h \<in> set ?hs \<and> parses row h \<and> (\<forall>r \<in> set rows1. \<not> parses r h))"
      by auto
    then show "\<exists>added. numericAfter (headers ds) (rows1 @ [row]) = numericAfter (headers ds) rows1 @ added \<and>
               (h \<in> set added) =
               (h \<in> set (headers ds) \<and> parses row h \<and> (\<forall>r \<in> set rows1. \<not> parses r h))"
      using after added hs by auto
  qed
  show ?thesis using 1 2 3 nh hs 5 by simp
qed

text \<open>
  An instance: a file with a column \<open>a\<close> that parses in the first row and a column \<open>b\<close>
  that parses in the second row only.
\<close>

theorem numericHeaders_first_parse_witness:
  "processParsedData exampleCsv \<noteq> None \<and>
   map_option numericHeaders (processParsedData exampleCsv) = Some [''a'', ''b''] \<and>
   numericAfter [''a'', ''b''] [hd exampleCsv] = [''a''] \<and>
   numericAfter [''a'', ''b''] exampleCsv = [''a'', ''b'']"
proof -
  let ?ds = "\<lparr> data = [[(''a'', Num (Fin 1)), (''b'', Str ''x'')], [(''a'', Str ''''), (''b'', Num (Fin 2))]],
            headers = [''a'', ''b''], numericHeaders = [''a'', ''b''] \<rparr>"
  have "numericHeaders ?ds = numericAfter (headers ?ds) exampleCsv"
    using numericHeaders_first_parse [OF exampleCsv_processed] by blast
  moreover have "numericAfter [''a'', ''b''] [hd exampleCsv] = [''a'']"
    by (simp add: numericAfter_def exampleCsv_def processRow_def processCell_def
      get_def put_def parseFloat_1 parseFloat_x Let_def)
  ultimately show ?thesis using exampleCsv_processed by simp
qed

section \<open>Descriptive statistics\<close>

lemma stats_fold:
  "fold (\<lambda>header descStats.
             let values = stats_values rows header
             in if length values > 0 then descStats(header \<mapsto> describe values) else descStats)
          hs acc h =
     (if h \<in> set hs \<and> stats_values rows h \<noteq> [] then Some (describe (stats_values rows h)) else acc h)"
  by (induction hs arbitrary: acc) (auto simp: Let_def)

lemma stats_entry:
  "stats ds h =
     (if h \<in> set (numericHeaders ds) \<and> stats_values (data ds) h \<noteq> []
      then Some (describe (stats_values (data ds) h)) else None)"
  unfolding stats_def stats_fold by simp

text \<open>
  Claim C7 says that the statistics of a numeric column are computed over the cells that
  are valid numbers only, strings excluded. The filter of \<^verbatim>\<open>stats\<close> is
  \<^verbatim>\<open>v !== null && !isNaN(v)\<close>, and the global \<^verbatim>\<open>isNaN\<close> converts a string with
  \<^verbatim>\<open>Number\<close> before it tests it: the empty string converts to \<open>0\<close> and passes. The
  theorem runs the code on a file whose column \<open>a\<close> holds \<^verbatim>\<open>1\<close> and a blank cell.
  \<^verbatim>\<open>parseFloat\<close> rejects the blank, so the processed row keeps the string; the array
  \<^verbatim>\<open>values\<close> of \<^verbatim>\<open>stats\<close> then holds the number and the empty string, and
  \<^verbatim>\<open>count\<close> is 2. The filter of \<^verbatim>\<open>handleTrainModel\<close>, which tests
  \<^verbatim>\<open>typeof row[v] === 'number'\<close> first, keeps the first row only. (The other half of the
  claim holds: by lemma \<open>stats_entry\<close> a column whose filtered array is empty has no
  entry.)
\<close>

theorem blank_cell_counted:
  "processParsedData blankCsv =
     Some \<lparr> data = [[(''a'', Num (Fin 1))], [(''a'', Str '''')]], headers = [''a''],
            numericHeaders = [''a''] \<rparr> \<and>
   stats_values [[(''a'', Num (Fin 1))], [(''a'', Str '''')]] ''a'' = [Num (Fin 1), Str ''''] \<and>
   map_option st_count
     (stats \<lparr> data = [[(''a'', Num (Fin 1))], [(''a'', Str '''')]], headers = [''a''],
              numericHeaders = [''a''] \<rparr> ''a'') = Some 2 \<and>
   cleanData \<lparr> data = [[(''a'', Num (Fin 1))], [(''a'', Str '''')]], headers = [''a''],
               numericHeaders = [''a''] \<rparr> [''a''] = [[(''a'', Num (Fin 1))]]"
  by (simp add: processParsedData_def blankCsv_def keys_def processRow_def processCell_def
      get_def put_def parseFloat_1 parseFloat_empty toNumber_empty stats_values_def
      stats_def describe_def cleanData_def Let_def)

lemma foldl_jadd_Fin: "foldl jadd (Fin a) (map Fin rs) = Fin (a + sum_list rs)"
  by (induction rs arbitrary: a) (simp_all add: algebra_simps)

lemma sum_ss_Fin: "sum_ss (map Fin rs) = Fin (sum_list rs)"
  by (simp add: sum_ss_def foldl_jadd_Fin)

lemma mean_Fin: "rs \<noteq> [] \<Longrightarrow> mean (map Fin rs) = Some (Fin (sum_list rs / real (length rs)))"
  by (simp add: mean_def sum_ss_Fin)

lemma foldl_sqdev_Fin:
  "foldl (\<lambda>s v. jadd s (jmul (jsub v (Fin m)) (jsub v (Fin m)))) (Fin a) (map Fin rs) =
     Fin (a + (\<Sum>r\<leftarrow>rs. (r - m)\<^sup>2))"
  by (induction rs arbitrary: a) (simp_all add: jsub_def power2_eq_square algebra_simps)

lemma sumNthPowerDeviations_Fin:
  "rs \<noteq> [] \<Longrightarrow> sumNthPowerDeviations (map Fin rs) =
     Some (Fin (\<Sum>r\<leftarrow>rs. (r - sum_list rs / real (length rs))\<^sup>2))"
  by (simp add: sumNthPowerDeviations_def mean_Fin foldl_sqdev_Fin)

lemma variance_Fin:
  "rs \<noteq> [] \<Longrightarrow> variance (map Fin rs) =
     Some (Fin ((\<Sum>r\<leftarrow>rs. (r - sum_list rs / real (length rs))\<^sup>2) / real (length rs)))"
  by (simp add: variance_def sumNthPowerDeviations_Fin)

lemma sum_list_sq_nonneg: "0 \<le> (\<Sum>r\<leftarrow>rs. (r - m)\<^sup>2 :: real)"
  by (induction rs) simp_all

lemma standardDeviation_Fin:
  assumes "rs \<noteq> []"
  shows "standardDeviation (map Fin rs) = Some (Fin (populationStd rs))"
proof (cases "length rs = 1")
  case True
  then obtain r where rs: "rs = [r]" by (cases rs) auto
  show ?thesis unfolding rs by (simp add: standardDeviation_def populationStd_def)
next
  case False
  have "0 \<le> (\<Sum>r\<leftarrow>rs. (r - sum_list rs / real (length rs))\<^sup>2) / real (length rs)"
    by (intro divide_nonneg_nonneg sum_list_sq_nonneg) simp
  then show ?thesis using False assms
    by (simp add: standardDeviation_def variance_Fin populationStd_def)
qed

lemma numbers_Fin: "numbers (map (\<lambda>r. Num (Fin r)) rs) = Some (map Fin rs)"
  by (induction rs) simp_all

lemma exampleColumn_values: "stats_values (data exampleColumn) ''a'' = map (\<lambda>r. Num (Fin r)) [0, 2]"
  by (simp add: exampleColumn_def stats_values_def get_def)

text \<open>
  The example of the package's documentation, \<^verbatim>\<open>standardDeviation([2, 4, 4, 4, 5, 5, 7, 9])\<close>
  \<^verbatim>\<open>= 2\<close>, is reproduced by the model.
\<close>

lemma standardDeviation_documented:
  "standardDeviation (map Fin [2, 4, 4, 4, 5, 5, 7, 9]) = Some (Fin 2)"
proof -
  have "populationStd [2, 4, 4, 4, 5, 5, 7, 9] = sqrt 4" by (simp add: populationStd_def)
  then have "populationStd [2, 4, 4, 4, 5, 5, 7, 9] = 2" by simp
  then show ?thesis using standardDeviation_Fin [of "[2, 4, 4, 4, 5, 5, 7, 9]"] by simp
qed

text \<open>
  Claim C2, as amended. For every numeric column whose filtered list consists of
  \<open>n \<ge> 1\<close> finite numbers, the \<^verbatim>\<open>std\<close> of the descriptive statistics is their
  population standard deviation: the square root of the sum of squared deviations from
  the mean divided by \<open>n\<close> (arithmetic taken as exact).
\<close>

theorem std_is_population:
  assumes "h \<in> set (numericHeaders ds)"
      and "stats_values (data ds) h = map (\<lambda>r. Num (Fin r)) rs"
      and "rs \<noteq> []"
  shows "\<exists>e. stats ds h = Some e \<and> st_count e = length rs \<and> st_std e = Some (Fin (populationStd rs))"
  using assms
  by (simp add: stats_entry describe_def numbers_Fin standardDeviation_Fin)

text \<open>An instance: the column \<open>0, 2\<close>, whose \<^verbatim>\<open>std\<close> is \<open>1\<close>.\<close>

theorem std_is_population_witness:
  "''a'' \<in> set (numericHeaders exampleColumn) \<and>
   stats_values (data exampleColumn) ''a'' = map (\<lambda>r. Num (Fin r)) [0, 2] \<and>
   (\<exists>e. stats exampleColumn ''a'' = Some e \<and> st_count e = 2 \<and> st_std e = Some (Fin 1))"
proof -
  have a: "''a'' \<in> set (numericHeaders exampleColumn)" by (simp add: exampleColumn_def)
  have p: "populationStd [0, 2] = 1" by (simp add: populationStd_def)
  obtain e where "stats exampleColumn ''a'' = Some e" "st_count e = length [0, 2 :: real]"
      "st_std e = Some (Fin (populationStd [0, 2]))"
    using std_is_population [OF a exampleColumn_values] by auto
  then have "\<exists>e. stats exampleColumn ''a'' = Some e \<and> st_count e = 2 \<and> st_std e = Some (Fin 1)"
    using p by simp
  then show ?thesis using a exampleColumn_values by simp
qed

text \<open>
  Claim C2 as stated, with \<open>n - 1\<close> as the divisor, fails on the column \<open>0, 2\<close>:
  the \<^verbatim>\<open>std\<close> reported is \<open>1\<close> and the sample standard deviation is \<open>sqrt 2\<close>.
\<close>

theorem std_not_sample:
  "Option.bind (stats exampleColumn ''a'') st_std = Some (Fin 1) \<and> sampleStd [0, 2] = sqrt 2 \<and>
   Fin 1 \<noteq> Fin (sampleStd [0, 2])"
proof -
  have 1: "Option.bind (stats exampleColumn ''a'') st_std = Some (Fin 1)"
    by (simp add: stats_entry exampleColumn_values describe_def numbers_Fin standardDeviation_Fin [of "[0, 2]", simplified]
        populationStd_def) (simp add: exampleColumn_def)
  have 2: "sampleStd [0, 2] = sqrt 2" by (simp add: sampleStd_def)
  have "sqrt 2 \<noteq> (1::real)" by simp
  then show ?thesis using 1 2 by simp
qed

section \<open>Correlation matrix\<close>
















section \<open>Regression\<close>

lemma cleanData_numbers:
  assumes "row \<in> set (cleanData ds allVars)" and "v \<in> set allVars"
  shows "\<exists>n. get row v = Num n \<and> n \<noteq> NaN"
proof -
  have "isValidNumber (get row v)" using assms by (auto simp: cleanData_def list_all_iff)
  then show ?thesis by (cases "get row v") simp_all
qed

lemma clean_line: "cleanData exampleLine [''y'', ''x''] = data exampleLine"
  by (simp add: cleanData_def exampleLine_def get_def)

lemma clean_tenths: "cleanData exampleTenths [''y'', ''x''] = data exampleTenths"
  by (simp add: cleanData_def exampleTenths_def get_def)

lemma clean_two: "cleanData exampleTwoRows [''y'', ''x''] = data exampleTwoRows"
  by (simp add: cleanData_def exampleTwoRows_def get_def)

lemma clean_three: "cleanData exampleThreeRows [''y'', ''x1'', ''x2''] = data exampleThreeRows"
  by (simp add: cleanData_def exampleThreeRows_def get_def)

lemma fitAndEvaluate_insufficient:
  "fitAndEvaluate mlr x y ivs dv \<noteq> Alerted InsufficientData"
  by (simp add: fitAndEvaluate_def Let_def split: option.splits list.splits)

lemma fitAndEvaluate_nan:
  assumes "mlr x y = Some m" and "list_ex (\<lambda>w. isNaN (first w)) (weights m)"
  shows "fitAndEvaluate mlr x y ivs dv = Alerted InvalidCoefficients"
  using assms by (simp add: fitAndEvaluate_def)

lemma fitAndEvaluate_trained:
  assumes "fitAndEvaluate mlr x y ivs dv = Trained m r ivs' dv'"
  shows "mlr x y = Some m \<and> \<not> list_ex (\<lambda>w. isNaN (first w)) (weights m) \<and> ivs' = ivs \<and> dv' = dv \<and>
         (\<exists>yMean. mean y = Some yMean \<and> \<not> strict_eq (ssTotal y yMean) (Fin 0))"
  using assms
  by (auto simp: fitAndEvaluate_def Let_def split: option.splits list.splits if_splits)

text \<open>
  Claim C4. Let \<open>n\<close> be the number of clean rows and \<open>k\<close> the number of independent
  variables. The handler ends with the insufficient-data alert exactly when
  \<open>n < k + 2\<close>. The regression \<open>mlr\<close> is arbitrary in the statement: below the bound
  the outcome does not depend on it, the check comes before any fitting. The two
  hypotheses are the state in which the button that calls the handler is enabled
  (\<^verbatim>\<open>disabled={!dependentVar || independentVars.length === 0}\<close>).
\<close>

theorem insufficient_data_check:
  assumes "dependentVar \<noteq> []" and "independentVars \<noteq> []"
  shows "(handleTrainModel mlr ds dependentVar independentVars = Alerted InsufficientData) =
         (length (cleanData ds (dependentVar # independentVars)) < length independentVars + 2) \<and>
         (length (cleanData ds (dependentVar # independentVars)) < length independentVars + 2 \<longrightarrow>
            (\<forall>mlr'. handleTrainModel mlr' ds dependentVar independentVars = Alerted InsufficientData))"
  using assms by (simp add: handleTrainModel_def Let_def fitAndEvaluate_insufficient)

text \<open>An instance: three clean rows and two independent variables.\<close>

theorem insufficient_data_check_witness:
  "''y'' \<noteq> [] \<and> [''x1'', ''x2''] \<noteq> [] \<and>
   length (cleanData exampleThreeRows [''y'', ''x1'', ''x2'']) = 3 \<and>
   handleTrainModel (fitWith [[Fin 1], [Fin 2], [Fin 3]] (Fin 0)) exampleThreeRows ''y'' [''x1'', ''x2'']
     = Alerted InsufficientData"
proof -
  have n: "length (cleanData exampleThreeRows [''y'', ''x1'', ''x2'']) = 3"
    unfolding clean_three by (simp add: exampleThreeRows_def)
  show ?thesis
    using n insufficient_data_check [of "''y''" "[''x1'', ''x2'']"
        "fitWith [[Fin 1], [Fin 2], [Fin 3]] (Fin 0)" exampleThreeRows]
    by simp
qed

text \<open>
  Claim C3, as amended. For every fit whose clean-row count passes the check
  \<open>n \<ge> k + 2\<close> and whose regression returns a model, the handler ends with the
  invalid-coefficients alert, and passes no model on, exactly when \<^verbatim>\<open>isNaN(w[0])\<close> holds
  for some row \<open>w\<close> of the weights. The test is \<^verbatim>\<open>isNaN\<close>: an infinite weight does not
  trigger it.
\<close>

theorem nan_coefficients_rejected:
  assumes "dependentVar \<noteq> []" and "independentVars \<noteq> []"
      and "rows = cleanData ds (dependentVar # independentVars)"
      and "length independentVars + 2 \<le> length rows"
      and "mlr (xMatrix rows independentVars) (yVector rows dependentVar) = Some m"
  shows "(handleTrainModel mlr ds dependentVar independentVars = Alerted InvalidCoefficients) =
         list_ex (\<lambda>w. isNaN (first w)) (weights m)"
proof (cases "list_ex (\<lambda>w. isNaN (first w)) (weights m)")
  case True
  then show ?thesis using assms by (simp add: handleTrainModel_def Let_def fitAndEvaluate_nan)
next
  case False
  then show ?thesis using assms
    by (auto simp: handleTrainModel_def fitAndEvaluate_def Let_def split: option.splits list.splits)
qed

text \<open>An instance: a regression that returns a NaN weight.\<close>

theorem nan_coefficients_rejected_witness:
  "length (cleanData exampleLine [''y'', ''x'']) = 3 \<and>
   handleTrainModel (fitWith [[NaN], [Fin 1]] (Fin 0)) exampleLine ''y'' [''x'']
     = Alerted InvalidCoefficients"
proof -
  have n: "length (cleanData exampleLine [''y'', ''x'']) = 3"
    unfolding clean_line by (simp add: exampleLine_def)
  have "(handleTrainModel (fitWith [[NaN], [Fin 1]] (Fin 0)) exampleLine ''y'' [''x'']
           = Alerted InvalidCoefficients) =
        list_ex (\<lambda>w. isNaN (first w)) (weights \<lparr> weights = [[NaN], [Fin 1]], predict = (\<lambda>row. Some (Fin 0)) \<rparr>)"
    by (rule nan_coefficients_rejected [where rows = "cleanData exampleLine [''y'', ''x'']"])
       (simp_all add: n fitWith_def)
  then show ?thesis using n by simp
qed

text \<open>
  Claim C3 as stated, which has an infinite coefficient rejected too, fails: with the
  weights \<open>[[Infinity], [1]]\<close> on three clean rows the handler passes the model and its
  metrics to \<^verbatim>\<open>onModelTrain\<close>.
\<close>

theorem infinite_coefficient_accepted:
  "handleTrainModel (fitWith [[PInf], [Fin 1]] (Fin 0)) exampleLine ''y'' [''x''] =
     Trained \<lparr> weights = [[PInf], [Fin 1]], predict = (\<lambda>row. Some (Fin 0)) \<rparr>
       \<lparr> coefficients = [Fin 1], intercept = PInf, rSquared = Fin (- 3 / 2),
         rSquaredAdjusted = Fin (- 4), rmse = Fin (sqrt (5 / 3)) \<rparr>
       [''x''] ''y''"
  by (simp add: handleTrainModel_def clean_line Let_def)
     (simp add: exampleLine_def fitAndEvaluate_def fitWith_def xMatrix_def yVector_def get_def
        mean_def sum_ss_def ssTotal_def ssResidual_def pow2_def jsub_def strict_eq_def Let_def)

text \<open>
  Evaluating \<open>fl\<close>: once the binade \<open>2^k \<le> |x| < 2^(k+1)\<close> of \<open>x\<close> is known, \<open>fl x\<close> is
  the nearest multiple of \<open>2^(k-52)\<close>.
\<close>

lemma floor_log2:
  assumes "2 powi k \<le> x" and "x < 2 powi (k + 1)"
  shows "\<lfloor>log 2 x\<rfloor> = k"
proof -
  have pos: "0 < x" using assms(1) by (smt (verit) zero_less_power_int zero_less_numeral)
  have "of_int k \<le> log 2 x"
    using assms(1) pos by (simp add: le_log_iff powr_real_of_int')
  moreover have "log 2 x < of_int (k + 1)"
  proof -
    have "(2::real) powr of_int (k + 1) = 2 powi (k + 1)" by (rule powr_real_of_int') simp_all
    then show ?thesis using assms(2) pos by (simp add: log_less_iff del: of_int_add)
  qed
  ultimately show ?thesis by (simp add: floor_eq_iff)
qed

lemma fl_at:
  assumes "2 powi k \<le> \<bar>x\<bar>" and "\<bar>x\<bar> < 2 powi (k + 1)"
  shows "fl x = of_int (roundEven (x / 2 powi (k - 52))) * 2 powi (k - 52)"
proof -
  have "x \<noteq> 0" using assms(1) by (smt (verit) zero_less_power_int zero_less_numeral abs_zero)
  then show ?thesis using floor_log2 [OF assms] by (simp add: fl_def Let_def)
qed

lemma fl_val:
  assumes "2 powi k \<le> \<bar>x\<bar>" and "\<bar>x\<bar> < 2 powi (k + 1)"
      and "of_int (roundEven (x / 2 powi (k - 52))) * 2 powi (k - 52) = r"
  shows "fl x = r"
  using fl_at [OF assms(1,2)] assms(3) by simp

lemma fl_tenth: "fl (1 / 10) = tenth"
  unfolding tenth_def
  by (rule fl_val [where k = "-4"]) (simp_all add: roundEven_def power_int_minus)

lemma fl_tenth_exact: "fl (3602879701896397 / 36028797018963968) = 3602879701896397 / 36028797018963968"
  by (rule fl_val [where k = "-4"]) (simp_all add: roundEven_def power_int_minus)

text \<open>
  The rounded operations that the mean and the sum of squares of the column
  \<open>0.1, 0.1, 0.1\<close> go through, in the order of the run. The third element makes the sum
  \<open>0.30000000000000004\<close> (a tie, rounded to even), and the division by \<open>3\<close> rounds up.
\<close>

lemma step1: "dadd (Fin (3602879701896397 / 36028797018963968)) (Fin (3602879701896397 / 36028797018963968)) = Fin (3602879701896397 / 18014398509481984)"
proof -
  have "fl (3602879701896397 / 18014398509481984) = 3602879701896397 / 18014398509481984"
    by (rule fl_val [where k = "-3"]) (simp_all add: roundEven_def power_int_minus)
  then show ?thesis by (simp add: dadd_def)
qed

lemma step2: "dsub (Fin (3602879701896397 / 36028797018963968)) (Fin (3602879701896397 / 18014398509481984)) = Fin (- (3602879701896397 / 36028797018963968))"
proof -
  have "fl (- (3602879701896397 / 36028797018963968)) = - (3602879701896397 / 36028797018963968)"
    by (rule fl_val [where k = "-4"]) (simp_all add: roundEven_def power_int_minus)
  then show ?thesis by (simp add: dsub_def jsub_def)
qed

lemma step3: "dadd (Fin (- (3602879701896397 / 36028797018963968))) (Fin (3602879701896397 / 36028797018963968)) = Fin (0)"
  by (simp add: dadd_def  fl_def)

lemma step4: "dadd (Fin (0)) (Fin (0)) = Fin (0)"
  by (simp add: dadd_def  fl_def)

lemma step5: "dadd (Fin (3602879701896397 / 18014398509481984)) (Fin (3602879701896397 / 36028797018963968)) = Fin (1351079888211149 / 4503599627370496)"
proof -
  have "fl (10808639105689191 / 36028797018963968) = 1351079888211149 / 4503599627370496"
    by (rule fl_val [where k = "-2"]) (simp_all add: roundEven_def power_int_minus)
  then show ?thesis by (simp add: dadd_def)
qed

lemma step6: "dsub (Fin (3602879701896397 / 18014398509481984)) (Fin (1351079888211149 / 4503599627370496)) = Fin (- (1801439850948199 / 18014398509481984))"
proof -
  have "fl (- (1801439850948199 / 18014398509481984)) = - (1801439850948199 / 18014398509481984)"
    by (rule fl_val [where k = "-4"]) (simp_all add: roundEven_def power_int_minus)
  then show ?thesis by (simp add: dsub_def jsub_def)
qed

lemma step7: "dadd (Fin (- (1801439850948199 / 18014398509481984))) (Fin (3602879701896397 / 36028797018963968)) = Fin (- (1 / 36028797018963968))"
proof -
  have "fl (- (1 / 36028797018963968)) = - (1 / 36028797018963968)"
    by (rule fl_val [where k = "-55"]) (simp_all add: roundEven_def power_int_minus)
  then show ?thesis by (simp add: dadd_def)
qed

lemma step8: "dadd (Fin (0)) (Fin (- (1 / 36028797018963968))) = Fin (- (1 / 36028797018963968))"
proof -
  have "fl (- (1 / 36028797018963968)) = - (1 / 36028797018963968)"
    by (rule fl_val [where k = "-55"]) (simp_all add: roundEven_def power_int_minus)
  then show ?thesis by (simp add: dadd_def)
qed

lemma step9: "dadd (Fin (1351079888211149 / 4503599627370496)) (Fin (- (1 / 36028797018963968))) = Fin (1351079888211149 / 4503599627370496)"
proof -
  have "fl (10808639105689191 / 36028797018963968) = 1351079888211149 / 4503599627370496"
    by (rule fl_val [where k = "-2"]) (simp_all add: roundEven_def power_int_minus)
  then show ?thesis by (simp add: dadd_def)
qed

lemma step10: "ddiv (Fin (1351079888211149 / 4503599627370496)) (Fin (3)) = Fin (7205759403792795 / 72057594037927936)"
proof -
  have "fl (1351079888211149 / 13510798882111488) = 7205759403792795 / 72057594037927936"
    by (rule fl_val [where k = "-4"]) (simp_all add: roundEven_def power_int_minus)
  then show ?thesis by (simp add: ddiv_def)
qed

lemma step11: "dsub (Fin (3602879701896397 / 36028797018963968)) (Fin (7205759403792795 / 72057594037927936)) = Fin (- (1 / 72057594037927936))"
proof -
  have "fl (- (1 / 72057594037927936)) = - (1 / 72057594037927936)"
    by (rule fl_val [where k = "-56"]) (simp_all add: roundEven_def power_int_minus)
  then show ?thesis by (simp add: dsub_def jsub_def)
qed

lemma step12: "dpow2 (Fin (- (1 / 72057594037927936))) = Fin (1 / 5192296858534827628530496329220096)"
proof -
  have "fl (1 / 5192296858534827628530496329220096) = 1 / 5192296858534827628530496329220096"
    by (rule fl_val [where k = "-112"]) (simp_all add: roundEven_def power_int_minus)
  then show ?thesis by (simp add: dpow2_def pow2_def)
qed

lemma step13: "dadd (Fin (0)) (Fin (1 / 5192296858534827628530496329220096)) = Fin (1 / 5192296858534827628530496329220096)"
proof -
  have "fl (1 / 5192296858534827628530496329220096) = 1 / 5192296858534827628530496329220096"
    by (rule fl_val [where k = "-112"]) (simp_all add: roundEven_def power_int_minus)
  then show ?thesis by (simp add: dadd_def)
qed

lemma step14: "dadd (Fin (1 / 5192296858534827628530496329220096)) (Fin (1 / 5192296858534827628530496329220096)) = Fin (1 / 2596148429267413814265248164610048)"
proof -
  have "fl (1 / 2596148429267413814265248164610048) = 1 / 2596148429267413814265248164610048"
    by (rule fl_val [where k = "-111"]) (simp_all add: roundEven_def power_int_minus)
  then show ?thesis by (simp add: dadd_def)
qed

lemma step15: "dadd (Fin (1 / 2596148429267413814265248164610048)) (Fin (1 / 5192296858534827628530496329220096)) = Fin (3 / 5192296858534827628530496329220096)"
proof -
  have "fl (3 / 5192296858534827628530496329220096) = 3 / 5192296858534827628530496329220096"
    by (rule fl_val [where k = "-111"]) (simp_all add: roundEven_def power_int_minus)
  then show ?thesis by (simp add: dadd_def)
qed

lemma sum_tenths:
  "sum_double [Fin tenth, Fin tenth, Fin tenth] = Fin (1351079888211149 / 4503599627370496)"
  unfolding tenth_def
  by (simp add: sum_double_def Let_def jgeq_def strict_eq_def
      step1 step2 step3 step4 step5 step6 step7 step8 step9)

text \<open>A plain sum from \<open>0\<close>, left to right, gives the same value.\<close>

lemma plain_sum_tenths:
  "dadd (dadd (dadd (Fin 0) (Fin tenth)) (Fin tenth)) (Fin tenth) = Fin (1351079888211149 / 4503599627370496)"
proof -
  have "dadd (Fin 0) (Fin tenth) = Fin tenth"
    unfolding tenth_def by (simp add: dadd_def fl_tenth_exact)
  then show ?thesis unfolding tenth_def by (simp add: step1 step5)
qed

lemma mean_tenths:
  "mean_double [Fin tenth, Fin tenth, Fin tenth] = Some (Fin (7205759403792795 / 72057594037927936))"
  using step10 by (simp add: mean_double_def sum_tenths)

lemma ssTotal_tenths:
  "ssTotal_double [Fin tenth, Fin tenth, Fin tenth] (Fin (7205759403792795 / 72057594037927936))
     = Fin (3 / 2 ^ 112)"
  unfolding tenth_def
  by (simp add: ssTotal_double_def step11 step12 step13 step14 step15)

lemma fitAndEvaluate_double_trained:
  assumes "mlr x y = Some m" and "\<not> list_ex (\<lambda>w. isNaN (first w)) (weights m)"
      and "those (map (predict m) x) \<noteq> None" and "mean_double y = Some yMean"
      and "\<not> strict_eq (ssTotal_double y yMean) (Fin 0)" and "weights m \<noteq> []"
  shows "isTrained (fitAndEvaluate_double mlr x y ivs dv)"
  using assms
  by (auto simp: fitAndEvaluate_double_def Let_def split: option.splits list.splits)

text \<open>
  Claim C5 says that a fit whose dependent variable has zero variance over the clean
  rows fails with the zero-variance error and yields no model. The handler tests
  \<^verbatim>\<open>ssTotal === 0\<close> on rounded values. The theorem runs it in binary64 arithmetic on three
  clean rows whose dependent variable is \<^verbatim>\<open>0.1\<close> in every row: the mean computed is
  \<open>7205759403792795 / 2^56\<close> (\<^verbatim>\<open>0.10000000000000002\<close>, one unit in the last place above
  \<^verbatim>\<open>0.1\<close>), \<^verbatim>\<open>ssTotal\<close> is \<open>3 / 2^112\<close> (about \<^verbatim>\<open>5.8e-34\<close>), the test does not
  fire, and with a regression that returns a model the handler ends by calling
  \<^verbatim>\<open>onModelTrain\<close>.
\<close>

theorem rounded_mean_hides_zero_variance:
  "fl (1 / 10) = tenth \<and>
   yVector (cleanData exampleTenths [''y'', ''x'']) ''y'' = [Fin tenth, Fin tenth, Fin tenth] \<and>
   mean_double [Fin tenth, Fin tenth, Fin tenth] = Some (Fin (7205759403792795 / 72057594037927936)) \<and>
   ssTotal_double [Fin tenth, Fin tenth, Fin tenth] (Fin (7205759403792795 / 72057594037927936))
     = Fin (3 / 2 ^ 112) \<and>
   isTrained (handleTrainModel_double (fitWith [[Fin tenth], [Fin 0]] (Fin tenth)) exampleTenths
                ''y'' [''x''])"
proof -
  have y: "yVector (cleanData exampleTenths [''y'', ''x'']) ''y'' = [Fin tenth, Fin tenth, Fin tenth]"
    unfolding clean_tenths by (simp add: exampleTenths_def yVector_def get_def)
  have t: "isTrained (fitAndEvaluate_double (fitWith [[Fin tenth], [Fin 0]] (Fin tenth))
             (xMatrix (cleanData exampleTenths [''y'', ''x'']) [''x''])
             [Fin tenth, Fin tenth, Fin tenth] [''x''] ''y'')"
    by (rule fitAndEvaluate_double_trained [OF _ _ _ mean_tenths])
       (simp_all add: fitWith_def ssTotal_tenths strict_eq_def xMatrix_def clean_tenths,
        simp_all add: exampleTenths_def)
  have n: "length (cleanData exampleTenths [''y'', ''x'']) = 3"
    unfolding clean_tenths by (simp add: exampleTenths_def)
  have h: "isTrained (handleTrainModel_double (fitWith [[Fin tenth], [Fin 0]] (Fin tenth)) exampleTenths
                ''y'' [''x''])"
    using t n by (simp add: handleTrainModel_double_def Let_def y)
  show ?thesis using fl_tenth y mean_tenths ssTotal_tenths h by simp
qed

text \<open>
  Claim C9. A click on the train button that ends in an alert leaves the application
  state as it was, the current model and its results included. A click that succeeds
  replaces the field \<open>model\<close> as a whole, by the object the regression returned together
  with the results, and changes nothing else; nothing writes into a stored model.
\<close>

theorem failed_fit_keeps_state:
  "(\<forall>a. fst (trainClick mlr dependentVar independentVars st) = Some a \<longrightarrow>
        snd (trainClick mlr dependentVar independentVars st) = st) \<and>
   (fst (trainClick mlr dependentVar independentVars st) = None \<longrightarrow>
      snd (trainClick mlr dependentVar independentVars st) = st \<or>
      (\<exists>ds m r. dataSet st = Some ds \<and>
         handleTrainModel mlr ds dependentVar independentVars = Trained m r independentVars dependentVar \<and>
         mlr (xMatrix (cleanData ds (dependentVar # independentVars)) independentVars)
             (yVector (cleanData ds (dependentVar # independentVars)) dependentVar) = Some m \<and>
         snd (trainClick mlr dependentVar independentVars st) =
           st \<lparr> model := Some \<lparr> cm_model = m, cm_results = r,
                                cm_independentVars = independentVars,
                                cm_dependentVar = dependentVar \<rparr> \<rparr>))"
proof (cases "dataSet st")
  case None
  then show ?thesis by (simp add: trainClick_def)
next
  case (Some ds)
  show ?thesis
  proof (cases "handleTrainModel mlr ds dependentVar independentVars")
    case (Alerted a)
    then show ?thesis using Some by (simp add: trainClick_def)
  next
    case (Trained m r ivs dv)
    then have f: "fitAndEvaluate mlr (xMatrix (cleanData ds (dependentVar # independentVars)) independentVars)
             (yVector (cleanData ds (dependentVar # independentVars)) dependentVar) independentVars dependentVar
            = Trained m r ivs dv"
      by (simp add: handleTrainModel_def Let_def split: if_splits)
    from fitAndEvaluate_trained [OF f] have "ivs = independentVars" "dv = dependentVar"
      "mlr (xMatrix (cleanData ds (dependentVar # independentVars)) independentVars)
             (yVector (cleanData ds (dependentVar # independentVars)) dependentVar) = Some m"
      by simp_all
    then show ?thesis using Some Trained by (simp add: trainClick_def handleModelTrain_def)
  qed
qed

text \<open>An instance: a failed fit in a state that holds a model.\<close>

theorem failed_fit_keeps_state_witness:
  "fst (trainClick (fitWith [[Fin 1], [Fin 0]] (Fin 1)) ''y'' [''x''] exampleState) = Some InsufficientData \<and>
   snd (trainClick (fitWith [[Fin 1], [Fin 0]] (Fin 1)) ''y'' [''x''] exampleState) = exampleState \<and>
   model exampleState \<noteq> None"
proof -
  have a: "handleTrainModel (fitWith [[Fin 1], [Fin 0]] (Fin 1)) exampleTwoRows ''y'' [''x'']
     = Alerted InsufficientData"
    unfolding handleTrainModel_def clean_two by (simp add: exampleTwoRows_def)
  have f: "fst (trainClick (fitWith [[Fin 1], [Fin 0]] (Fin 1)) ''y'' [''x''] exampleState) = Some InsufficientData"
    by (simp add: trainClick_def exampleState_def a)
  show ?thesis
    using f failed_fit_keeps_state [of "fitWith [[Fin 1], [Fin 0]] (Fin 1)" "''y''" "[''x'']" exampleState]
    by (simp add: exampleState_def)
qed

section \<open>Prediction form\<close>












end
